theory Spec2Isabelle
  imports Main "HOL-Library.AList"
begin

section \<open>Python values, exceptions and built-ins used by \<open>main.py\<close>\<close>

text \<open>
  Exceptions are values. Every exception named here is a subclass of Python's
  \<open>Exception\<close>, so each of them is caught by an \<open>except Exception\<close> handler.
  \<open>APIError\<close> stands for whatever an HTTP client library raises (network failure,
  HTTP error status, expired credential).
\<close>

datatype error =
    TypeError | ValueError | OverflowError | AttributeError | KeyError
  | IndexError | JSONDecodeError | APIError

text \<open>
  A Python float: \<open>Finite m e\<close> is the number \<open>m * 2 ^ e\<close> (every finite IEEE double
  is of this form); \<open>json.loads\<close> also produces the three special values.
\<close>

datatype pyfloat = Finite int int | PosInf | NegInf | NaN

text \<open>
  What \<open>json.loads\<close> returns. An object is a Python \<open>dict\<close>: its keys are pairwise
  different and keep their insertion order, so it is an association list.
\<close>

datatype json =
    JNull | JBool bool | JInt int | JFloat pyfloat | JStr string
  | JArr "json list" | JObj "(string \<times> json) list"

text \<open>
  Strings are lists of 8-bit characters, read as the code points 0..255.
  \<open>py_isspace\<close> is \<open>str.isspace\<close> on that range.
\<close>

definition py_isspace :: "char \<Rightarrow> bool" where
  "py_isspace c \<longleftrightarrow>
     c \<in> set [CHR 0x09, CHR 0x0A, CHR 0x0B, CHR 0x0C, CHR 0x0D, CHR 0x1C, CHR 0x1D,
              CHR 0x1E, CHR 0x1F, CHR 0x20, CHR 0x85, CHR 0xA0]"

definition py_isdigit :: "char \<Rightarrow> bool" where
  "py_isdigit c \<longleftrightarrow> c \<in> set ''0123456789''"

definition digit_value :: "char \<Rightarrow> int" where
  "digit_value c = int (of_char c) - 48"

text \<open>\<open>s.strip()\<close>, \<open>s.split("<")[0]\<close> and \<open>s.replace('"', '')\<close>.\<close>

definition strip :: "string \<Rightarrow> string" where
  "strip s = rev (dropWhile py_isspace (rev (dropWhile py_isspace s)))"

definition split_lt_first :: "string \<Rightarrow> string" where
  "split_lt_first s = takeWhile (\<lambda>c. c \<noteq> CHR ''<'') s"

definition remove_quotes :: "string \<Rightarrow> string" where
  "remove_quotes s = filter (\<lambda>c. c \<noteq> CHR 0x22) s"

text \<open>
  \<open>int(x)\<close> on a float truncates towards zero; it raises \<open>OverflowError\<close> on an
  infinity and \<open>ValueError\<close> on NaN.
\<close>

fun int_of_float :: "pyfloat \<Rightarrow> error + int" where
  "int_of_float (Finite m e) =
     (if 0 \<le> e then Inr (m * 2 ^ nat e)
      else if 0 \<le> m then Inr (m div 2 ^ nat (- e))
      else Inr (- ((- m) div 2 ^ nat (- e))))"
| "int_of_float PosInf = Inl OverflowError"
| "int_of_float NegInf = Inl OverflowError"
| "int_of_float NaN = Inl ValueError"

text \<open>
  \<open>int(s)\<close> on a string, base 10: surrounding whitespace is ignored, one sign is
  allowed, then decimal digits, where single underscores may separate digits. Anything
  else raises \<open>ValueError\<close>, and so does a literal of more than
  \<open>int_max_str_digits\<close> digits (CPython's default limit). The whitespace that
  \<open>int\<close> ignores is that of \<open>str.isspace\<close> without the four separators
  \<open>0x1C..0x1F\<close>.
\<close>

definition int_isspace :: "char \<Rightarrow> bool" where
  "int_isspace c \<longleftrightarrow>
     c \<in> set [CHR 0x09, CHR 0x0A, CHR 0x0B, CHR 0x0C, CHR 0x0D, CHR 0x20, CHR 0x85, CHR 0xA0]"

definition int_max_str_digits :: nat where
  "int_max_str_digits = 4300"

fun underscores_ok :: "string \<Rightarrow> bool" where
  "underscores_ok [] = True"
| "underscores_ok [c] = (c \<noteq> CHR ''_'')"
| "underscores_ok (c # d # cs) =
     (\<not> (c = CHR ''_'' \<and> d = CHR ''_'') \<and> underscores_ok (d # cs))"

definition int_of_str :: "string \<Rightarrow> error + int" where
  "int_of_str s =
     (let s1 = dropWhile int_isspace s;
          negative = (case s1 of [] \<Rightarrow> False | c # _ \<Rightarrow> c = CHR ''-'');
          s2 = (case s1 of [] \<Rightarrow> [] | c # r \<Rightarrow> if c = CHR ''+'' \<or> c = CHR ''-'' then r else s1);
          body = takeWhile (\<lambda>c. py_isdigit c \<or> c = CHR ''_'') s2;
          rest = dropWhile (\<lambda>c. py_isdigit c \<or> c = CHR ''_'') s2;
          ds = filter py_isdigit body
      in if body = [] \<or> hd body = CHR ''_'' \<or> \<not> underscores_ok body then Inl ValueError
         else if \<not> list_all int_isspace rest then Inl ValueError
         else if int_max_str_digits < length ds then Inl ValueError
         else let v = foldl (\<lambda>acc d. 10 * acc + digit_value d) 0 ds
              in Inr (if negative then - v else v))"

text \<open>\<open>int(x)\<close> on a value of a parsed JSON document.\<close>

fun py_int :: "json \<Rightarrow> error + int" where
  "py_int (JInt n) = Inr n"
| "py_int (JBool b) = Inr (if b then 1 else 0)"
| "py_int (JFloat f) = int_of_float f"
| "py_int (JStr s) = int_of_str s"
| "py_int JNull = Inl TypeError"
| "py_int (JArr xs) = Inl TypeError"
| "py_int (JObj kvs) = Inl TypeError"

text \<open>
  \<open>for x in v\<close>: a list yields its elements, a string its characters (each a string of
  length one), a dict its keys; nothing else is iterable.
\<close>

fun py_iter :: "json \<Rightarrow> error + json list" where
  "py_iter (JArr xs) = Inr xs"
| "py_iter (JStr s) = Inr (map (\<lambda>c. JStr [c]) s)"
| "py_iter (JObj kvs) = Inr (map (\<lambda>kv. JStr (fst kv)) kvs)"
| "py_iter JNull = Inl TypeError"
| "py_iter (JBool b) = Inl TypeError"
| "py_iter (JInt n) = Inl TypeError"
| "py_iter (JFloat f) = Inl TypeError"

text \<open>\<open>v.items()\<close>: only a dict has the method.\<close>

fun py_items :: "json \<Rightarrow> error + (string \<times> json) list" where
  "py_items (JObj kvs) = Inr kvs"
| "py_items v = Inl AttributeError"

text \<open>\<open>str(n)\<close> for an integer, as an f-string formats it.\<close>

fun digits :: "nat \<Rightarrow> string" where
  "digits n = (if n < 10 then [char_of (48 + n)] else digits (n div 10) @ [char_of (48 + n mod 10)])"

declare digits.simps [simp del]

definition py_str_int :: "int \<Rightarrow> string" where
  "py_str_int i = (if i < 0 then CHR ''-'' # digits (nat (- i)) else digits (nat i))"

text \<open>\<open>sep.join(xs)\<close>.\<close>

fun join :: "string \<Rightarrow> string list \<Rightarrow> string" where
  "join sep [] = []"
| "join sep [x] = x"
| "join sep (x # y # xs) = x @ sep @ join sep (y # xs)"

section \<open>Data model\<close>

text \<open>
  An email is the dict built in \<open>callback\<close> with the keys \<open>"id"\<close>, \<open>"from"\<close>,
  \<open>"subject"\<close>, \<open>"snippet"\<close> and, once the counts are attached, \<open>"sender_count"\<close>
  (\<open>None\<close> while the key is absent). Such a dict is never empty, so it is truthy.
\<close>

record email =
  id' :: string
  from' :: string
  subject :: string
  snippet :: string
  sender_count :: "int option"

text \<open>
  The result of a categorization: a dict from category name to a list of emails, in
  insertion order. \<open>{}\<close> is \<open>[]\<close>.
\<close>

type_synonym assignment = "(string \<times> email list) list"

section \<open>\<open>categorize_with_ai\<close>\<close>

text \<open>\<open>enumerate(emails, 1)\<close>, and the dict \<open>email_map\<close> made of it.\<close>

definition enumerate1 :: "'a list \<Rightarrow> (int \<times> 'a) list" where
  "enumerate1 xs = zip (map int [1..<Suc (length xs)]) xs"

definition prompt_line :: "int \<Rightarrow> email \<Rightarrow> string" where
  "prompt_line i e =
     (let clean_snippet = map (\<lambda>c. if c = CHR 0x0A then CHR '' '' else c) (take 60 (snippet e))
      in ''ID '' @ py_str_int i @ '' | From: '' @ from' e @ '' | Sub: '' @ subject e
         @ '' | Body: '' @ clean_snippet)"

text \<open>
  The inner loop \<open>for eid in ids\<close>; \<open>acc\<close> is \<open>final_output[category]\<close>.
  \<open>email_map.get(n)\<close> is \<open>map_of email_map n\<close>.
\<close>

fun resolve_ids :: "(int \<times> email) list \<Rightarrow> json list \<Rightarrow> email list \<Rightarrow> error + email list" where
  "resolve_ids email_map [] acc = Inr acc"
| "resolve_ids email_map (eid # rest) acc =
     (case py_int eid of
        Inl e \<Rightarrow> Inl e
      | Inr n \<Rightarrow>
          (case map_of email_map n of
             None \<Rightarrow> resolve_ids email_map rest acc
           | Some original \<Rightarrow> resolve_ids email_map rest (acc @ [original])))"

text \<open>The outer loop \<open>for category, ids in category_map.items()\<close>.\<close>

fun rebuild :: "(int \<times> email) list \<Rightarrow> (string \<times> json) list \<Rightarrow> assignment \<Rightarrow> error + assignment" where
  "rebuild email_map [] final_output = Inr final_output"
| "rebuild email_map ((category, ids) # rest) final_output =
     (let out1 = AList.update category [] final_output
      in case py_iter ids of
           Inl e \<Rightarrow> Inl e
         | Inr eids \<Rightarrow>
             (case resolve_ids email_map eids [] of
                Inl e \<Rightarrow> Inl e
              | Inr rs \<Rightarrow> rebuild email_map rest (AList.update category rs out1)))"

text \<open>The prompt: one line per entry of \<open>email_map\<close>, joined by newlines.\<close>

definition prompt_text :: "(int \<times> email) list \<Rightarrow> string" where
  "prompt_text email_map =
     (let prompt_lines = map (\<lambda>(i, e). prompt_line i e) email_map
      in join [CHR 0x0A] prompt_lines)"

text \<open>
  The body of the \<open>try\<close>. \<open>ask_model prompt\<close> is the outcome of the request to the
  language model followed by \<open>json.loads\<close> of \<open>completion.choices[0].message.content\<close>:
  either one of these steps raises, or the reply parses to a JSON value. The model name,
  the system prompt and the temperature are constants of the request.
\<close>

definition categorize_try ::
  "(string \<Rightarrow> error + json) \<Rightarrow> (int \<times> email) list \<Rightarrow> string \<Rightarrow> error + assignment" where
  "categorize_try ask_model email_map prompt =
     (case ask_model prompt of
        Inl e \<Rightarrow> Inl e
      | Inr category_map \<Rightarrow>
          (case py_items category_map of
             Inl e \<Rightarrow> Inl e
           | Inr items \<Rightarrow> rebuild email_map items []))"

text \<open>
  \<open>categorize_with_ai\<close> returns the assignment, and with it the log of the outbound
  requests it made to the language model (the user prompt of each).
\<close>

definition categorize_with_ai ::
  "(string \<Rightarrow> error + json) \<Rightarrow> email list \<Rightarrow> assignment \<times> string list" where
  "categorize_with_ai ask_model emails =
     (if emails = [] then ([], [])
      else
        let email_map = enumerate1 emails;
            prompt = prompt_text email_map
        in (case categorize_try ask_model email_map prompt of
              Inl e \<Rightarrow> []
            | Inr final_output \<Rightarrow> final_output,
            [prompt]))"

section \<open>\<open>callback\<close> and \<open>get_result\<close>\<close>

text \<open>
  What the mail provider answers. A header is a dict that may lack the key \<open>"name"\<close> or
  \<open>"value"\<close>; the metadata answer may lack \<open>"payload"\<close>, the payload may lack
  \<open>"headers"\<close>, the minimal answer may lack \<open>"snippet"\<close>, an entry of the message list
  may lack \<open>"id"\<close>.
\<close>

record header =
  hname :: "string option"
  hvalue :: "string option"

record payload =
  headers :: "header list option"

record metadata =
  payload :: "payload option"

record minimal_message =
  msg_snippet :: "string option"

record list_entry =
  entry_id :: "string option"

text \<open>
  The collaborators of one run of \<open>callback\<close>: the token exchange, building the service
  and listing the messages (\<open>None\<close>: the answer has no key \<open>"messages"\<close>), the two reads
  of a message by its identifier, and the language model.
\<close>

record environment =
  fetch_token :: "error + string"
  list_messages :: "error + list_entry list option"
  get_metadata :: "string \<Rightarrow> error + metadata"
  get_minimal :: "string \<Rightarrow> error + minimal_message"
  ask_model :: "string \<Rightarrow> error + json"

record user_session =
  credentials :: "string option"
  last_result :: assignment

definition USER_SESSION :: user_session where
  "USER_SESSION = \<lparr>credentials = None, last_result = []\<rparr>"

definition FRONTEND_URL :: string where
  "FRONTEND_URL = ''http://localhost:8501''"

datatype response = RedirectResponse string | JSONResponse error nat

text \<open>\<open>data.get("payload", {}).get("headers", [])\<close>.\<close>

definition get_headers :: "metadata \<Rightarrow> header list" where
  "get_headers data =
     (case payload data of
        None \<Rightarrow> []
      | Some p \<Rightarrow> (case headers p of None \<Rightarrow> [] | Some hs \<Rightarrow> hs))"

text \<open>
  \<open>next((h["value"] for h in headers if h["name"] == key), default)\<close>: the generator is
  lazy, so headers after the first match are not looked at.
\<close>

fun find_header :: "string \<Rightarrow> string \<Rightarrow> header list \<Rightarrow> error + string" where
  "find_header key dflt [] = Inr dflt"
| "find_header key dflt (h # hs) =
     (case hname h of
        None \<Rightarrow> Inl KeyError
      | Some n \<Rightarrow>
          if n = key then (case hvalue h of None \<Rightarrow> Inl KeyError | Some v \<Rightarrow> Inr v)
          else find_header key dflt hs)"

text \<open>The body of the inner \<open>try\<close>, up to the dict that is appended.\<close>

definition fetch_one :: "environment \<Rightarrow> list_entry \<Rightarrow> error + email" where
  "fetch_one env msg =
     (case entry_id msg of
        None \<Rightarrow> Inl KeyError
      | Some mid \<Rightarrow>
     (case get_metadata env mid of
        Inl e \<Rightarrow> Inl e
      | Inr data \<Rightarrow>
     (case get_minimal env mid of
        Inl e \<Rightarrow> Inl e
      | Inr snippet_res \<Rightarrow>
     (case find_header ''Subject'' ''(No Subject)'' (get_headers data) of
        Inl e \<Rightarrow> Inl e
      | Inr subject_v \<Rightarrow>
     (case find_header ''From'' ''Unknown'' (get_headers data) of
        Inl e \<Rightarrow> Inl e
      | Inr sender \<Rightarrow>
          let snippet_v = (case msg_snippet snippet_res of None \<Rightarrow> [] | Some s \<Rightarrow> s);
              sender_simple = remove_quotes (strip (split_lt_first sender))
          in Inr \<lparr>id' = mid, from' = sender_simple, subject = subject_v,
                  snippet = snippet_v, sender_count = None\<rparr>)))))"

text \<open>
  The loop \<open>for msg in messages\<close>: the state is \<open>extracted_emails\<close> and
  \<open>sender_counter\<close> (a \<open>defaultdict(int)\<close>: a total function, 0 by default). A message
  whose body raises is passed over (\<open>continue\<close>).
\<close>

fun fetch_loop ::
  "environment \<Rightarrow> list_entry list \<Rightarrow> email list \<times> (string \<Rightarrow> int) \<Rightarrow> email list \<times> (string \<Rightarrow> int)" where
  "fetch_loop env [] st = st"
| "fetch_loop env (msg # messages) (extracted_emails, sender_counter) =
     (case fetch_one env msg of
        Inl e \<Rightarrow> fetch_loop env messages (extracted_emails, sender_counter)
      | Inr em \<Rightarrow>
          fetch_loop env messages
            (extracted_emails @ [em],
             sender_counter(from' em := sender_counter (from' em) + 1)))"

text \<open>The second pass: \<open>email["sender_count"] = sender_counter[email["from"]]\<close>.\<close>

definition attach_counts :: "(string \<Rightarrow> int) \<Rightarrow> email list \<Rightarrow> email list" where
  "attach_counts sender_counter extracted_emails =
     map (\<lambda>em. em\<lparr>sender_count := Some (sender_counter (from' em))\<rparr>) extracted_emails"

text \<open>Steps 1 and 2 of \<open>callback\<close> together.\<close>

definition fetch_and_count :: "environment \<Rightarrow> list_entry list \<Rightarrow> email list" where
  "fetch_and_count env messages =
     (case fetch_loop env messages ([], \<lambda>_. 0) of
        (extracted_emails, sender_counter) \<Rightarrow> attach_counts sender_counter extracted_emails)"

text \<open>
  \<open>callback\<close> takes the session and returns the response and the session as it leaves it.
  The outer handler answers any exception with status 500.
\<close>

definition callback :: "environment \<Rightarrow> user_session \<Rightarrow> response \<times> user_session" where
  "callback env s =
     (case fetch_token env of
        Inl e \<Rightarrow> (JSONResponse e 500, s)
      | Inr creds \<Rightarrow>
          let s1 = s\<lparr>credentials := Some creds\<rparr>
          in (case list_messages env of
                Inl e \<Rightarrow> (JSONResponse e 500, s1)
              | Inr results \<Rightarrow>
                  let messages = (case results of None \<Rightarrow> [] | Some ms \<Rightarrow> ms);
                      extracted_emails = fetch_and_count env messages;
                      structured_data = fst (categorize_with_ai (ask_model env) extracted_emails)
                  in (RedirectResponse FRONTEND_URL, s1\<lparr>last_result := structured_data\<rparr>)))"

record result_response =
  status :: string
  categories :: assignment

definition get_result :: "user_session \<Rightarrow> result_response" where
  "get_result s = \<lparr>status = ''success'', categories = last_result s\<rparr>"

section \<open>The ordinal mapping and the lookup-or-drop loops\<close>

lemma map_of_enumerate1:
  "map_of (enumerate1 xs) n =
     (if 1 \<le> n \<and> n \<le> int (length xs) then Some (xs ! nat (n - 1)) else None)"
proof (cases "1 \<le> n \<and> n \<le> int (length xs)")
  case True
  define i where "i = nat (n - 1)"
  define ks where "ks = map int [1..<Suc (length xs)]"
  have i: "i < length xs" and n: "n = int (Suc i)"
    using True unfolding i_def by linarith+
  have len: "length ks = length xs" by (simp add: ks_def del: upt_Suc)
  have dist: "distinct ks" by (simp add: ks_def distinct_map)
  have "ks ! i = n" using i n by (simp add: ks_def nth_map_upt del: upt_Suc)
  moreover have "map_of (zip ks xs) (ks ! i) = Some (xs ! i)"
    using len dist i by (rule map_of_zip_nth)
  ultimately show ?thesis
    using True by (simp add: enumerate1_def ks_def i_def del: upt_Suc)
next
  case False
  define ks where "ks = map int [1..<Suc (length xs)]"
  have len: "length ks = length xs" by (simp add: ks_def del: upt_Suc)
  have "n \<notin> set ks" using False by (auto simp: ks_def simp del: upt_Suc)
  then have "map_of (zip ks xs) n = None"
    using len by (simp add: map_of_zip_is_None)
  then show ?thesis using False unfolding enumerate1_def ks_def by auto
qed

lemma ran_enumerate1: "map_of (enumerate1 xs) n = Some r \<Longrightarrow> r \<in> set xs"
  by (auto simp: map_of_enumerate1 split: if_splits)

lemma map_filter_enumerate1:
  "List.map_filter (map_of (enumerate1 emails)) ns =
     map (\<lambda>n. emails ! nat (n - 1)) (filter (\<lambda>n. 1 \<le> n \<and> n \<le> int (length emails)) ns)"
  by (induction ns) (simp_all add: map_filter_simps map_of_enumerate1)

lemma resolve_ids_ok:
  "\<forall>x\<in>set xs. \<not> isl (py_int x) \<Longrightarrow>
   resolve_ids em xs acc = Inr (acc @ List.map_filter (map_of em) (map (\<lambda>x. projr (py_int x)) xs))"
proof (induction xs arbitrary: acc)
  case Nil
  show ?case by (simp add: map_filter_simps)
next
  case (Cons x xs)
  then obtain n where n: "py_int x = Inr n" by (cases "py_int x") auto
  from Cons show ?case
    by (simp add: n map_filter_simps split: option.splits)
qed

lemma resolve_ids_fail:
  "x \<in> set xs \<Longrightarrow> isl (py_int x) \<Longrightarrow> isl (resolve_ids em xs acc)"
proof (induction xs arbitrary: acc)
  case Nil
  then show ?case by simp
next
  case (Cons y ys)
  show ?case
  proof (cases "py_int y")
    case (Inl e)
    then show ?thesis by simp
  next
    case (Inr n)
    with Cons have "x \<in> set ys" by auto
    with Cons Inr show ?thesis by (simp split: option.splits)
  qed
qed

lemma resolve_ids_subset:
  "resolve_ids em xs acc = Inr rs \<Longrightarrow> set rs \<subseteq> set acc \<union> {r. \<exists>n. map_of em n = Some r}"
proof (induction xs arbitrary: acc)
  case Nil
  then show ?case by auto
next
  case (Cons x xs)
  then show ?case
    by (fastforce split: sum.splits option.splits)
qed

lemma set_update_subset: "set (AList.update k v al) \<subseteq> insert (k, v) (set al)"
  by (induction al) auto

lemma update_fresh: "k \<notin> fst ` set al \<Longrightarrow> AList.update k v al = al @ [(k, v)]"
  by (induction al) auto

lemma rebuild_subset:
  "rebuild em items out = Inr out' \<Longrightarrow>
   \<forall>(c, rs)\<in>set out. set rs \<subseteq> S \<Longrightarrow> {r. \<exists>n. map_of em n = Some r} \<subseteq> S \<Longrightarrow>
   \<forall>(c, rs)\<in>set out'. set rs \<subseteq> S"
proof (induction em items out rule: rebuild.induct)
  case (1 em out)
  then show ?case by simp
next
  case (2 em category ids rest out)
  from "2.prems"(1) obtain eids rs where
    it: "py_iter ids = Inr eids" and rs: "resolve_ids em eids [] = Inr rs"
    and rec: "rebuild em rest (AList.update category rs (AList.update category [] out)) = Inr out'"
    by (auto simp: Let_def split: sum.splits)
  have rsS: "set rs \<subseteq> S" using resolve_ids_subset[OF rs] "2.prems"(3) by auto
  have "set rs' \<subseteq> S"
    if "(c', rs') \<in> set (AList.update category rs (AList.update category [] out))" for c' rs'
  proof -
    from that have "(c', rs') = (category, rs) \<or> (c', rs') \<in> set out"
      using set_update_subset[of category rs out] by auto
    then show ?thesis using rsS "2.prems"(2) by auto
  qed
  then have "\<forall>(c, rs)\<in>set (AList.update category rs (AList.update category [] out)). set rs \<subseteq> S"
    by auto
  with "2.IH"[OF refl it rs rec] "2.prems"(3) show ?case by blast
qed

lemma rebuild_ok:
  "\<forall>(c, xs)\<in>set cats. \<forall>x\<in>set xs. \<not> isl (py_int x) \<Longrightarrow>
   rebuild em (map (\<lambda>(c, xs). (c, JArr xs)) cats) out =
     Inr (fold (\<lambda>(c, xs). AList.update c (List.map_filter (map_of em) (map (\<lambda>x. projr (py_int x)) xs))) cats out)"
proof (induction cats arbitrary: out)
  case Nil
  show ?case by simp
next
  case (Cons a cats)
  obtain c xs where a: "a = (c, xs)" by (cases a)
  from Cons.prems have ok: "\<forall>x\<in>set xs. \<not> isl (py_int x)" by (auto simp: a)
  from Cons.prems have rest: "\<forall>(c, xs)\<in>set cats. \<forall>x\<in>set xs. \<not> isl (py_int x)" by auto
  show ?case
    by (simp add: a resolve_ids_ok[OF ok] Cons.IH[OF rest])
qed

lemma rebuild_fail:
  "(c, xs) \<in> set cats \<Longrightarrow> x \<in> set xs \<Longrightarrow> isl (py_int x) \<Longrightarrow>
   isl (rebuild em (map (\<lambda>(c, xs). (c, JArr xs)) cats) out)"
proof (induction cats arbitrary: out)
  case Nil
  then show ?case by simp
next
  case (Cons a cats)
  obtain c' xs' where a: "a = (c', xs')" by (cases a)
  show ?case
  proof (cases "resolve_ids em xs' []")
    case (Inl e)
    then show ?thesis by (simp add: a)
  next
    case (Inr rs)
    have "\<not> (x \<in> set xs' \<and> (c, xs) = a)"
      using resolve_ids_fail[of x xs' em "[]"] Cons.prems(3) Inr by (auto simp: a)
    with Cons.prems have "(c, xs) \<in> set cats" by (auto simp: a)
    from Cons.IH[OF this Cons.prems(2,3)] show ?thesis by (simp add: a Inr)
  qed
qed

lemma fold_update_distinct:
  "distinct (map fst cats) \<Longrightarrow> fst ` set cats \<inter> fst ` set out = {} \<Longrightarrow>
   fold (\<lambda>(c, xs). AList.update c (f xs)) cats out = out @ map (\<lambda>(c, xs). (c, f xs)) cats"
proof (induction cats arbitrary: out)
  case Nil
  show ?case by simp
next
  case (Cons a cats)
  obtain c xs where a: "a = (c, xs)" by (cases a)
  from Cons.prems have fresh: "c \<notin> fst ` set out" by (auto simp: a)
  have "fst ` set cats \<inter> fst ` set (out @ [(c, f xs)]) = {}"
    using Cons.prems by (auto simp: a)
  with Cons.IH[of "out @ [(c, f xs)]"] Cons.prems show ?case
    by (simp add: a update_fresh[OF fresh])
qed


lemma categorize_arrays:
  assumes ne: "emails \<noteq> []"
    and reply: "ask (prompt_text (enumerate1 emails)) = Inr (JObj (map (\<lambda>(c, xs). (c, JArr xs)) cats))"
    and keys: "distinct (map fst cats)"
    and ok: "\<forall>(c, xs)\<in>set cats. \<forall>x\<in>set xs. \<not> isl (py_int x)"
  shows "fst (categorize_with_ai ask emails) =
           map (\<lambda>(c, xs). (c, map (\<lambda>n. emails ! nat (n - 1))
                  (filter (\<lambda>n. 1 \<le> n \<and> n \<le> int (length emails))
                     (map (\<lambda>x. projr (py_int x)) xs)))) cats"
proof -
  let ?f = "\<lambda>xs. List.map_filter (map_of (enumerate1 emails)) (map (\<lambda>x. projr (py_int x)) xs)"
  have "categorize_try ask (enumerate1 emails) (prompt_text (enumerate1 emails)) =
          Inr (fold (\<lambda>(c, xs). AList.update c (?f xs)) cats [])"
    by (simp add: categorize_try_def reply rebuild_ok[OF ok])
  also have "fold (\<lambda>(c, xs). AList.update c (?f xs)) cats [] = [] @ map (\<lambda>(c, xs). (c, ?f xs)) cats"
    by (rule fold_update_distinct[OF keys]) simp
  finally show ?thesis
    using ne by (simp add: categorize_with_ai_def Let_def map_filter_enumerate1)
qed

lemma categorize_arrays_fail:
  assumes ne: "emails \<noteq> []"
    and reply: "ask (prompt_text (enumerate1 emails)) = Inr (JObj (map (\<lambda>(c, xs). (c, JArr xs)) cats))"
    and bad: "(c, xs) \<in> set cats" "x \<in> set xs" "isl (py_int x)"
  shows "fst (categorize_with_ai ask emails) = []"
proof -
  have "isl (categorize_try ask (enumerate1 emails) (prompt_text (enumerate1 emails)))"
    by (simp add: categorize_try_def reply rebuild_fail[OF bad])
  then show ?thesis
    by (auto simp: categorize_with_ai_def Let_def isl_def)
qed

section \<open>Claims about \<open>categorize_with_ai\<close>\<close>

text \<open>
  C1, as amended. The reply is a JSON object whose values are arrays. If \<open>int()\<close>
  accepts every entry of every array (JSON numbers, numeric strings; in range or not),
  no error is raised, every entry whose ordinal is in \<open>1..N\<close> resolves to its original
  record and appears in its category, in the order listed, and an out-of-range ordinal
  appears nowhere. If \<open>int()\<close> raises on some entry (a non-numeric ordinal), no error
  escapes and that entry appears nowhere, but the whole assignment is \<open>{}\<close>: the valid
  entries are lost with it.
\<close>

theorem C1_ordinal_errors:
  assumes "emails \<noteq> []"
    and "ask (prompt_text (enumerate1 emails)) = Inr (JObj (map (\<lambda>(c, xs). (c, JArr xs)) cats))"
    and "distinct (map fst cats)"
  shows "((\<forall>(c, xs)\<in>set cats. \<forall>x\<in>set xs. \<not> isl (py_int x)) \<longrightarrow>
            fst (categorize_with_ai ask emails) =
              map (\<lambda>(c, xs). (c, map (\<lambda>n. emails ! nat (n - 1))
                     (filter (\<lambda>n. 1 \<le> n \<and> n \<le> int (length emails))
                        (map (\<lambda>x. projr (py_int x)) xs)))) cats)
       \<and> ((\<exists>(c, xs)\<in>set cats. \<exists>x\<in>set xs. isl (py_int x)) \<longrightarrow>
            fst (categorize_with_ai ask emails) = [])"
proof (intro conjI impI)
  assume "\<forall>(c, xs)\<in>set cats. \<forall>x\<in>set xs. \<not> isl (py_int x)"
  with assms show "fst (categorize_with_ai ask emails) =
      map (\<lambda>(c, xs). (c, map (\<lambda>n. emails ! nat (n - 1))
             (filter (\<lambda>n. 1 \<le> n \<and> n \<le> int (length emails))
                (map (\<lambda>x. projr (py_int x)) xs)))) cats"
    by (rule categorize_arrays)
next
  assume "\<exists>(c, xs)\<in>set cats. \<exists>x\<in>set xs. isl (py_int x)"
  then obtain c xs x where "(c, xs) \<in> set cats" "x \<in> set xs" "isl (py_int x)" by auto
  with assms(1,2) show "fst (categorize_with_ai ask emails) = []"
    by (rule categorize_arrays_fail)
qed


text \<open>
  Both cases at concrete replies: \<open>["1", 7, 2]\<close> over two records resolves ordinals 1
  and 2 and drops 7; \<open>[1, "abc"]\<close> over one record gives \<open>{}\<close>.
\<close>

theorem C1_ordinal_errors_witness:
  "fst (categorize_with_ai
          (\<lambda>_. Inr (JObj [(''Action Required'', JArr [JStr ''1'', JInt 7, JInt 2])]))
          [\<lparr>id' = ''m1'', from' = ''Alice'', subject = ''Hi'', snippet = ''hello'',
            sender_count = Some 1\<rparr>,
           \<lparr>id' = ''m2'', from' = ''Bob'', subject = ''Yo'', snippet = ''bye'',
            sender_count = Some 1\<rparr>])
     = [(''Action Required'',
         [\<lparr>id' = ''m1'', from' = ''Alice'', subject = ''Hi'', snippet = ''hello'',
           sender_count = Some 1\<rparr>,
          \<lparr>id' = ''m2'', from' = ''Bob'', subject = ''Yo'', snippet = ''bye'',
           sender_count = Some 1\<rparr>])]
   \<and> fst (categorize_with_ai
          (\<lambda>_. Inr (JObj [(''Action Required'', JArr [JInt 1, JStr ''abc''])]))
          [\<lparr>id' = ''m1'', from' = ''Alice'', subject = ''Hi'', snippet = ''hello'',
            sender_count = Some 1\<rparr>])
     = []"
proof
  show "fst (categorize_with_ai
          (\<lambda>_. Inr (JObj [(''Action Required'', JArr [JStr ''1'', JInt 7, JInt 2])]))
          [\<lparr>id' = ''m1'', from' = ''Alice'', subject = ''Hi'', snippet = ''hello'',
            sender_count = Some 1\<rparr>,
           \<lparr>id' = ''m2'', from' = ''Bob'', subject = ''Yo'', snippet = ''bye'',
            sender_count = Some 1\<rparr>])
     = [(''Action Required'',
         [\<lparr>id' = ''m1'', from' = ''Alice'', subject = ''Hi'', snippet = ''hello'',
           sender_count = Some 1\<rparr>,
          \<lparr>id' = ''m2'', from' = ''Bob'', subject = ''Yo'', snippet = ''bye'',
           sender_count = Some 1\<rparr>])]"
    using C1_ordinal_errors[of
        "[\<lparr>id' = ''m1'', from' = ''Alice'', subject = ''Hi'', snippet = ''hello'',
            sender_count = Some 1\<rparr>,
          \<lparr>id' = ''m2'', from' = ''Bob'', subject = ''Yo'', snippet = ''bye'',
            sender_count = Some 1\<rparr>]"
        "\<lambda>_. Inr (JObj [(''Action Required'', JArr [JStr ''1'', JInt 7, JInt 2])])"
        "[(''Action Required'', [JStr ''1'', JInt 7, JInt 2])]"]
    by (simp add: int_of_str_def int_isspace_def py_isdigit_def digit_value_def
          int_max_str_digits_def)
next
  show "fst (categorize_with_ai
          (\<lambda>_. Inr (JObj [(''Action Required'', JArr [JInt 1, JStr ''abc''])]))
          [\<lparr>id' = ''m1'', from' = ''Alice'', subject = ''Hi'', snippet = ''hello'',
            sender_count = Some 1\<rparr>])
     = []"
    using C1_ordinal_errors[of
        "[\<lparr>id' = ''m1'', from' = ''Alice'', subject = ''Hi'', snippet = ''hello'',
            sender_count = Some 1\<rparr>]"
        "\<lambda>_. Inr (JObj [(''Action Required'', JArr [JInt 1, JStr ''abc''])])"
        "[(''Action Required'', [JInt 1, JStr ''abc''])]"]
    by (simp add: int_of_str_def int_isspace_def py_isdigit_def)
qed

text \<open>
  C1 as stated fails: in the reply \<open>{"Action Required": [1, "abc"]}\<close> over a batch of
  one record, \<open>"abc"\<close> is non-numeric and ordinal 1 is valid and maps to the record,
  yet the record appears in no category, since the result is \<open>{}\<close>.
\<close>

theorem C1_nonnumeric_counterexample:
  "isl (py_int (JStr ''abc''))
   \<and> py_int (JInt 1) = Inr 1
   \<and> map_of (enumerate1
        [\<lparr>id' = ''m1'', from' = ''Alice'', subject = ''Hi'', snippet = ''hello'',
          sender_count = Some 1\<rparr>]) 1
      = Some \<lparr>id' = ''m1'', from' = ''Alice'', subject = ''Hi'', snippet = ''hello'',
          sender_count = Some 1\<rparr>
   \<and> fst (categorize_with_ai
          (\<lambda>_. Inr (JObj [(''Action Required'', JArr [JInt 1, JStr ''abc''])]))
          [\<lparr>id' = ''m1'', from' = ''Alice'', subject = ''Hi'', snippet = ''hello'',
            sender_count = Some 1\<rparr>])
      = []"
  by (simp add: categorize_with_ai_def categorize_try_def Let_def enumerate1_def
        int_of_str_def int_isspace_def py_isdigit_def)

text \<open>
  Whatever the language model does, a record enters a category only as the value that the
  ordinal mapping holds at some ordinal.
\<close>

lemma categorize_records_mapped:
  assumes "emails \<noteq> []"
  shows "\<forall>(c, rs)\<in>set (fst (categorize_with_ai ask emails)).
           \<forall>r\<in>set rs. \<exists>n. map_of (enumerate1 emails) n = Some r"
proof (cases "categorize_try ask (enumerate1 emails) (prompt_text (enumerate1 emails))")
  case (Inl e)
  with assms show ?thesis by (simp add: categorize_with_ai_def Let_def)
next
  case (Inr out)
  then obtain items where "rebuild (enumerate1 emails) items [] = Inr out"
    by (auto simp: categorize_try_def split: sum.splits)
  then have "\<forall>(c, rs)\<in>set out. set rs \<subseteq> {r. \<exists>n. map_of (enumerate1 emails) n = Some r}"
    by (rule rebuild_subset) simp_all
  then have "\<forall>(c, rs)\<in>set out. \<forall>r\<in>set rs. \<exists>n. map_of (enumerate1 emails) n = Some r"
    by blast
  with assms Inr show ?thesis by (simp add: categorize_with_ai_def Let_def)
qed

text \<open>
  C6. For every model reply, and every other behaviour of the model call, each record in
  each category is the value the ordinal mapping holds at some ordinal: an ordinal absent
  from the mapping gives no record, partial or null. When the reply maps category keys to
  arrays whose entries \<open>int()\<close> accepts (JSON numbers or numeric strings), each category
  holds exactly the records that the mapping has for the converted ordinals of its
  array, in the order listed, so an absent ordinal contributes nothing. The mapping lacks
  exactly the ordinals outside \<open>1..N\<close>, and maps ordinal \<open>n\<close> in that range to the
  \<open>n\<close>-th record of the batch.
\<close>

theorem C6_absent_ordinal_dropped:
  assumes "emails \<noteq> []"
  shows "(\<forall>(c, rs)\<in>set (fst (categorize_with_ai ask emails)).
            \<forall>r\<in>set rs. \<exists>n. map_of (enumerate1 emails) n = Some r)
       \<and> (ask (prompt_text (enumerate1 emails)) =
              Inr (JObj (map (\<lambda>(c, xs). (c, JArr xs)) cats))
            \<and> distinct (map fst cats)
            \<and> (\<forall>(c, xs)\<in>set cats. \<forall>x\<in>set xs. \<not> isl (py_int x)) \<longrightarrow>
            fst (categorize_with_ai ask emails) =
              map (\<lambda>(c, xs). (c, List.map_filter (map_of (enumerate1 emails))
                                   (map (\<lambda>x. projr (py_int x)) xs))) cats)
       \<and> (\<forall>n. (map_of (enumerate1 emails) n = None) = (n < 1 \<or> int (length emails) < n))
       \<and> (\<forall>n. 1 \<le> n \<and> n \<le> int (length emails) \<longrightarrow>
              map_of (enumerate1 emails) n = Some (emails ! nat (n - 1)))"
proof (intro conjI impI)
  show "\<forall>(c, rs)\<in>set (fst (categorize_with_ai ask emails)).
          \<forall>r\<in>set rs. \<exists>n. map_of (enumerate1 emails) n = Some r"
    using assms by (rule categorize_records_mapped)
next
  assume h: "ask (prompt_text (enumerate1 emails)) =
              Inr (JObj (map (\<lambda>(c, xs). (c, JArr xs)) cats))
            \<and> distinct (map fst cats)
            \<and> (\<forall>(c, xs)\<in>set cats. \<forall>x\<in>set xs. \<not> isl (py_int x))"
  have "fst (categorize_with_ai ask emails) =
          map (\<lambda>(c, xs). (c, map (\<lambda>n. emails ! nat (n - 1))
                (filter (\<lambda>n. 1 \<le> n \<and> n \<le> int (length emails))
                   (map (\<lambda>x. projr (py_int x)) xs)))) cats"
    using assms h by (intro categorize_arrays) simp_all
  then show "fst (categorize_with_ai ask emails) =
      map (\<lambda>(c, xs). (c, List.map_filter (map_of (enumerate1 emails))
                           (map (\<lambda>x. projr (py_int x)) xs))) cats"
    by (simp add: map_filter_enumerate1)
next
  show "\<forall>n. (map_of (enumerate1 emails) n = None) = (n < 1 \<or> int (length emails) < n)"
    by (auto simp: map_of_enumerate1)
next
  show "\<forall>n. 1 \<le> n \<and> n \<le> int (length emails) \<longrightarrow>
          map_of (enumerate1 emails) n = Some (emails ! nat (n - 1))"
    by (simp add: map_of_enumerate1)
qed

text \<open>
  The reply \<open>{"Action Required": [1, 99]}\<close> over a batch of two records: the category
  holds the first record only. The same with the absent ordinal written as the string
  \<open>"99"\<close>.
\<close>

theorem C6_absent_ordinal_dropped_witness:
  "fst (categorize_with_ai
          (\<lambda>_. Inr (JObj [(''Action Required'', JArr [JInt 1, JInt 99])]))
          [\<lparr>id' = ''m1'', from' = ''Alice'', subject = ''Hi'', snippet = ''hello'',
            sender_count = Some 1\<rparr>,
           \<lparr>id' = ''m2'', from' = ''Bob'', subject = ''Yo'', snippet = ''bye'',
            sender_count = Some 1\<rparr>])
     = [(''Action Required'',
         [\<lparr>id' = ''m1'', from' = ''Alice'', subject = ''Hi'', snippet = ''hello'',
            sender_count = Some 1\<rparr>])]
   \<and> fst (categorize_with_ai
          (\<lambda>_. Inr (JObj [(''Action Required'', JArr [JInt 1, JStr ''99''])]))
          [\<lparr>id' = ''m1'', from' = ''Alice'', subject = ''Hi'', snippet = ''hello'',
            sender_count = Some 1\<rparr>,
           \<lparr>id' = ''m2'', from' = ''Bob'', subject = ''Yo'', snippet = ''bye'',
            sender_count = Some 1\<rparr>])
     = [(''Action Required'',
         [\<lparr>id' = ''m1'', from' = ''Alice'', subject = ''Hi'', snippet = ''hello'',
            sender_count = Some 1\<rparr>])]
   \<and> map_of (enumerate1
          [\<lparr>id' = ''m1'', from' = ''Alice'', subject = ''Hi'', snippet = ''hello'',
            sender_count = Some 1\<rparr>,
           \<lparr>id' = ''m2'', from' = ''Bob'', subject = ''Yo'', snippet = ''bye'',
            sender_count = Some 1\<rparr>]) 99 = None"
  using
    C6_absent_ordinal_dropped[of
      "[\<lparr>id' = ''m1'', from' = ''Alice'', subject = ''Hi'', snippet = ''hello'',
            sender_count = Some 1\<rparr>,
           \<lparr>id' = ''m2'', from' = ''Bob'', subject = ''Yo'', snippet = ''bye'',
            sender_count = Some 1\<rparr>]"
      "\<lambda>_. Inr (JObj [(''Action Required'', JArr [JInt 1, JInt 99])])"
      "[(''Action Required'', [JInt 1, JInt 99])]"]
    C6_absent_ordinal_dropped[of
      "[\<lparr>id' = ''m1'', from' = ''Alice'', subject = ''Hi'', snippet = ''hello'',
            sender_count = Some 1\<rparr>,
           \<lparr>id' = ''m2'', from' = ''Bob'', subject = ''Yo'', snippet = ''bye'',
            sender_count = Some 1\<rparr>]"
      "\<lambda>_. Inr (JObj [(''Action Required'', JArr [JInt 1, JStr ''99''])])"
      "[(''Action Required'', [JInt 1, JStr ''99''])]"]
  by (simp add: map_filter_simps enumerate1_def int_of_str_def int_isspace_def py_isdigit_def
        digit_value_def int_max_str_digits_def)

text \<open>
  C2, as amended. The reply maps category keys to arrays of ordinal IDs, written as JSON
  numbers or numeric strings, over a batch whose records have pairwise different
  identifiers. If no ordinal, as \<open>int()\<close> converts it, occurs in the arrays of two
  different categories, no record appears in more than one category. There is no
  deduplication across categories: when \<open>int()\<close> accepts every entry, every in-range
  ordinal listed under a category puts its record into that category, so an ordinal
  listed under two categories puts the record into both.
\<close>

theorem C2_disjoint_reply_disjoint_categories:
  assumes "emails \<noteq> []"
    and "ask (prompt_text (enumerate1 emails)) =
           Inr (JObj (map (\<lambda>(c, xs). (c, JArr xs)) cats))"
    and "distinct (map fst cats)"
    and "distinct (map id' emails)"
  shows "((\<forall>(c1, xs1)\<in>set cats. \<forall>(c2, xs2)\<in>set cats. c1 \<noteq> c2 \<longrightarrow>
             (\<forall>x1\<in>set xs1. \<forall>x2\<in>set xs2. \<forall>n. py_int x1 = Inr n \<longrightarrow> py_int x2 \<noteq> Inr n)) \<longrightarrow>
          (\<forall>(c1, rs1)\<in>set (fst (categorize_with_ai ask emails)).
           \<forall>(c2, rs2)\<in>set (fst (categorize_with_ai ask emails)).
             c1 \<noteq> c2 \<longrightarrow> set rs1 \<inter> set rs2 = {}))
       \<and> ((\<forall>(c, xs)\<in>set cats. \<forall>x\<in>set xs. \<not> isl (py_int x)) \<longrightarrow>
          (\<forall>(c, xs)\<in>set cats. \<forall>x\<in>set xs. \<forall>n.
             py_int x = Inr n \<and> 1 \<le> n \<and> n \<le> int (length emails) \<longrightarrow>
             (\<exists>rs. (c, rs) \<in> set (fst (categorize_with_ai ask emails))
                   \<and> emails ! nat (n - 1) \<in> set rs)))"
proof -
  let ?out = "fst (categorize_with_ai ask emails)"
  let ?res = "\<lambda>xs. map (\<lambda>n. emails ! nat (n - 1))
                (filter (\<lambda>n. 1 \<le> n \<and> n \<le> int (length emails))
                   (map (\<lambda>x. projr (py_int x)) xs))"
  let ?ok = "\<forall>(c, xs)\<in>set cats. \<forall>x\<in>set xs. \<not> isl (py_int x)"
  have out_ok: "?out = map (\<lambda>(c, xs). (c, ?res xs)) cats" if ok: ?ok
    using assms(1,2,3) ok by (rule categorize_arrays)
  have out_bad: "?out = []" if "\<not> ?ok"
  proof -
    from that obtain c xs x where "(c, xs) \<in> set cats" "x \<in> set xs" "isl (py_int x)"
      by auto
    with assms(1,2) show ?thesis by (rule categorize_arrays_fail)
  qed
  have dist: "distinct emails"
    using assms(4) by (simp add: distinct_map)
  have same: "n1 = n2"
    if "1 \<le> n1" "n1 \<le> int (length emails)" "1 \<le> n2" "n2 \<le> int (length emails)"
      "emails ! nat (n1 - 1) = emails ! nat (n2 - 1)" for n1 n2
  proof -
    have "nat (n1 - 1) < length emails" "nat (n2 - 1) < length emails"
      using that by linarith+
    with dist that(5) have "nat (n1 - 1) = nat (n2 - 1)"
      by (simp add: nth_eq_iff_index_eq)
    with that show ?thesis by linarith
  qed
  have origin: "\<exists>x\<in>set xs. \<exists>n. py_int x = Inr n \<and> 1 \<le> n \<and> n \<le> int (length emails)
                  \<and> r = emails ! nat (n - 1)"
    if ok: ?ok and mem: "(c, xs) \<in> set cats" and r: "r \<in> set (?res xs)" for c xs r
  proof -
    from r obtain x where x: "x \<in> set xs" "1 \<le> projr (py_int x)"
      "projr (py_int x) \<le> int (length emails)" "r = emails ! nat (projr (py_int x) - 1)"
      by auto
    from ok mem x(1) have "\<not> isl (py_int x)" by blast
    then have "py_int x = Inr (projr (py_int x))" by (cases "py_int x") auto
    with x show ?thesis by blast
  qed
  have part1: "set rs1 \<inter> set rs2 = {}"
    if disj: "\<forall>(c1, xs1)\<in>set cats. \<forall>(c2, xs2)\<in>set cats. c1 \<noteq> c2 \<longrightarrow>
               (\<forall>x1\<in>set xs1. \<forall>x2\<in>set xs2. \<forall>n. py_int x1 = Inr n \<longrightarrow> py_int x2 \<noteq> Inr n)"
      and m1: "(c1, rs1) \<in> set ?out" and m2: "(c2, rs2) \<in> set ?out"
      and ne: "c1 \<noteq> c2" for c1 rs1 c2 rs2
  proof (rule ccontr)
    assume "set rs1 \<inter> set rs2 \<noteq> {}"
    then obtain r where r: "r \<in> set rs1" "r \<in> set rs2" by auto
    have ok: ?ok
    proof (rule ccontr)
      assume "\<not> ?ok"
      then have "?out = []" by (rule out_bad)
      with m1 show False by simp
    qed
    from m1 obtain xs1 where xs1: "(c1, xs1) \<in> set cats" "rs1 = ?res xs1"
      unfolding out_ok[OF ok] by auto
    from m2 obtain xs2 where xs2: "(c2, xs2) \<in> set cats" "rs2 = ?res xs2"
      unfolding out_ok[OF ok] by auto
    from origin[OF ok xs1(1)] r(1) xs1(2) obtain x1 n1 where
      n1: "x1 \<in> set xs1" "py_int x1 = Inr n1" "1 \<le> n1" "n1 \<le> int (length emails)"
        "r = emails ! nat (n1 - 1)"
      by blast
    from origin[OF ok xs2(1)] r(2) xs2(2) obtain x2 n2 where
      n2: "x2 \<in> set xs2" "py_int x2 = Inr n2" "1 \<le> n2" "n2 \<le> int (length emails)"
        "r = emails ! nat (n2 - 1)"
      by blast
    have "n1 = n2" using same[of n1 n2] n1 n2 by simp
    with n2(2) have "py_int x2 = Inr n1" by simp
    moreover from disj xs1(1) xs2(1) ne n1(1) n2(1) n1(2) have "py_int x2 \<noteq> Inr n1"
      by blast
    ultimately show False by contradiction
  qed
  have part2: "\<exists>rs. (c, rs) \<in> set ?out \<and> emails ! nat (n - 1) \<in> set rs"
    if ok: ?ok and mem: "(c, xs) \<in> set cats" and x: "x \<in> set xs"
      and n: "py_int x = Inr n \<and> 1 \<le> n \<and> n \<le> int (length emails)" for c xs x n
  proof (intro exI conjI)
    show "(c, ?res xs) \<in> set ?out"
      unfolding out_ok[OF ok] using mem by force
    have "n \<in> set (map (\<lambda>x. projr (py_int x)) xs)"
      using x n by force
    then show "emails ! nat (n - 1) \<in> set (?res xs)"
      using n by auto
  qed
  show ?thesis
  proof (intro conjI impI)
    assume "\<forall>(c1, xs1)\<in>set cats. \<forall>(c2, xs2)\<in>set cats. c1 \<noteq> c2 \<longrightarrow>
              (\<forall>x1\<in>set xs1. \<forall>x2\<in>set xs2. \<forall>n. py_int x1 = Inr n \<longrightarrow> py_int x2 \<noteq> Inr n)"
    from part1[OF this] show "\<forall>(c1, rs1)\<in>set ?out. \<forall>(c2, rs2)\<in>set ?out.
        c1 \<noteq> c2 \<longrightarrow> set rs1 \<inter> set rs2 = {}"
      by blast
  next
    assume ?ok
    from part2[OF this] show "\<forall>(c, xs)\<in>set cats. \<forall>x\<in>set xs. \<forall>n.
        py_int x = Inr n \<and> 1 \<le> n \<and> n \<le> int (length emails) \<longrightarrow>
        (\<exists>rs. (c, rs) \<in> set ?out \<and> emails ! nat (n - 1) \<in> set rs)"
      by blast
  qed
qed

text \<open>
  A disjoint reply, \<open>{"Action Required": ["1"], "Promotions": [2]}\<close>, over two records:
  the two categories share no record, and each listed record is in its category.
\<close>

theorem C2_disjoint_reply_disjoint_categories_witness:
  "set (the (map_of (fst (categorize_with_ai
          (\<lambda>_. Inr (JObj [(''Action Required'', JArr [JStr ''1'']),
                           (''Promotions'', JArr [JInt 2])]))
          [\<lparr>id' = ''m1'', from' = ''Alice'', subject = ''Hi'', snippet = ''hello'',
            sender_count = Some 1\<rparr>,
           \<lparr>id' = ''m2'', from' = ''Bob'', subject = ''Yo'', snippet = ''bye'',
            sender_count = Some 1\<rparr>])) ''Action Required''))
     \<inter> set (the (map_of (fst (categorize_with_ai
          (\<lambda>_. Inr (JObj [(''Action Required'', JArr [JStr ''1'']),
                           (''Promotions'', JArr [JInt 2])]))
          [\<lparr>id' = ''m1'', from' = ''Alice'', subject = ''Hi'', snippet = ''hello'',
            sender_count = Some 1\<rparr>,
           \<lparr>id' = ''m2'', from' = ''Bob'', subject = ''Yo'', snippet = ''bye'',
            sender_count = Some 1\<rparr>])) ''Promotions'')) = {}
   \<and> fst (categorize_with_ai
          (\<lambda>_. Inr (JObj [(''Action Required'', JArr [JStr ''1'']),
                           (''Promotions'', JArr [JInt 2])]))
          [\<lparr>id' = ''m1'', from' = ''Alice'', subject = ''Hi'', snippet = ''hello'',
            sender_count = Some 1\<rparr>,
           \<lparr>id' = ''m2'', from' = ''Bob'', subject = ''Yo'', snippet = ''bye'',
            sender_count = Some 1\<rparr>])
     = [(''Action Required'',
         [\<lparr>id' = ''m1'', from' = ''Alice'', subject = ''Hi'', snippet = ''hello'',
            sender_count = Some 1\<rparr>]),
        (''Promotions'',
         [\<lparr>id' = ''m2'', from' = ''Bob'', subject = ''Yo'', snippet = ''bye'',
            sender_count = Some 1\<rparr>])]"
proof -
  let ?emails = "[\<lparr>id' = ''m1'', from' = ''Alice'', subject = ''Hi'', snippet = ''hello'',
            sender_count = Some 1\<rparr>,
           \<lparr>id' = ''m2'', from' = ''Bob'', subject = ''Yo'', snippet = ''bye'',
            sender_count = Some 1\<rparr>]"
  let ?ask = "\<lambda>_::string. (Inr (JObj [(''Action Required'', JArr [JStr ''1'']),
                           (''Promotions'', JArr [JInt 2])]) :: error + json)"
  let ?out = "fst (categorize_with_ai ?ask ?emails)"
  have one: "int_of_str ''1'' = Inr 1"
    by (simp add: int_of_str_def int_isspace_def py_isdigit_def digit_value_def
          int_max_str_digits_def)
  have out: "?out = [(''Action Required'', [?emails ! 0]), (''Promotions'', [?emails ! 1])]"
    by (simp add: categorize_with_ai_def categorize_try_def Let_def enumerate1_def one)
  have "(\<forall>(c1, rs1)\<in>set ?out. \<forall>(c2, rs2)\<in>set ?out. c1 \<noteq> c2 \<longrightarrow> set rs1 \<inter> set rs2 = {})"
    using C2_disjoint_reply_disjoint_categories[of ?emails ?ask
        "[(''Action Required'', [JStr ''1'']), (''Promotions'', [JInt 2])]"]
    by (simp add: one)
  then show ?thesis
    unfolding out by simp
qed

text \<open>
  C2 as stated fails: in the reply \<open>{"Action Required": [1], "Promotions": [1]}\<close> over a
  batch of one record, the record is inserted into both categories.
\<close>

theorem C2_duplicate_ordinal_counterexample:
  "fst (categorize_with_ai
          (\<lambda>_. Inr (JObj [(''Action Required'', JArr [JInt 1]),
                           (''Promotions'', JArr [JInt 1])]))
          [\<lparr>id' = ''m1'', from' = ''Alice'', subject = ''Hi'', snippet = ''hello'',
            sender_count = Some 1\<rparr>])
     = [(''Action Required'',
         [\<lparr>id' = ''m1'', from' = ''Alice'', subject = ''Hi'', snippet = ''hello'',
           sender_count = Some 1\<rparr>]),
        (''Promotions'',
         [\<lparr>id' = ''m1'', from' = ''Alice'', subject = ''Hi'', snippet = ''hello'',
           sender_count = Some 1\<rparr>])]"
  by (simp add: categorize_with_ai_def categorize_try_def Let_def enumerate1_def)


text \<open>
  C3. For every batch, whenever the body of the \<open>try\<close> raises, the result is \<open>{}\<close>:
  when the request or the parse of the reply raises, when the reply is not a JSON object,
  and when the rebuild of a parsed object raises. The function returns a value in each
  case, so no exception escapes it.
\<close>

theorem C3_failure_gives_empty:
  "(ask (prompt_text (enumerate1 emails)) = Inl e \<longrightarrow>
      fst (categorize_with_ai ask emails) = [])
   \<and> (ask (prompt_text (enumerate1 emails)) = Inr j \<and> py_items j = Inl e \<longrightarrow>
      fst (categorize_with_ai ask emails) = [])
   \<and> (ask (prompt_text (enumerate1 emails)) = Inr j \<and> py_items j = Inr items
        \<and> rebuild (enumerate1 emails) items [] = Inl e \<longrightarrow>
      fst (categorize_with_ai ask emails) = [])"
  by (simp add: categorize_with_ai_def categorize_try_def Let_def)

text \<open>
  The three cases at concrete outcomes over a batch of one record: the request raises;
  the reply parses to a JSON array; the reply \<open>{"Action Required": 5}\<close> has a value that
  cannot be iterated.
\<close>

theorem C3_failure_gives_empty_witness:
  "fst (categorize_with_ai (\<lambda>_. Inl APIError)
          [\<lparr>id' = ''m1'', from' = ''Alice'', subject = ''Hi'', snippet = ''hello'',
            sender_count = Some 1\<rparr>]) = []
   \<and> fst (categorize_with_ai (\<lambda>_. Inr (JArr [JInt 1]))
          [\<lparr>id' = ''m1'', from' = ''Alice'', subject = ''Hi'', snippet = ''hello'',
            sender_count = Some 1\<rparr>]) = []
   \<and> fst (categorize_with_ai (\<lambda>_. Inr (JObj [(''Action Required'', JInt 5)]))
          [\<lparr>id' = ''m1'', from' = ''Alice'', subject = ''Hi'', snippet = ''hello'',
            sender_count = Some 1\<rparr>]) = []"
  using
    C3_failure_gives_empty[of "\<lambda>_. Inl APIError"
      "[\<lparr>id' = ''m1'', from' = ''Alice'', subject = ''Hi'', snippet = ''hello'',
          sender_count = Some 1\<rparr>]" APIError]
    C3_failure_gives_empty[of "\<lambda>_. Inr (JArr [JInt 1])"
      "[\<lparr>id' = ''m1'', from' = ''Alice'', subject = ''Hi'', snippet = ''hello'',
          sender_count = Some 1\<rparr>]" AttributeError "JArr [JInt 1]"]
    C3_failure_gives_empty[of "\<lambda>_. Inr (JObj [(''Action Required'', JInt 5)])"
      "[\<lparr>id' = ''m1'', from' = ''Alice'', subject = ''Hi'', snippet = ''hello'',
          sender_count = Some 1\<rparr>]" TypeError "JObj [(''Action Required'', JInt 5)]"
      "[(''Action Required'', JInt 5)]"]
  by simp

text \<open>
  C5. On the empty batch the result is \<open>{}\<close> and the log of outbound requests is empty,
  whatever the language model would have answered.
\<close>

theorem C5_empty_batch_no_call:
  "categorize_with_ai ask [] = ([], [])"
  by (simp add: categorize_with_ai_def)

text \<open>
  C7. For every non-empty batch and every behaviour of the language model, every record
  in every category of the result is a member of the batch.
\<close>

theorem C7_no_fabricated_records:
  "emails \<noteq> [] \<Longrightarrow>
   \<forall>(c, rs)\<in>set (fst (categorize_with_ai ask emails)). set rs \<subseteq> set emails"
proof (cases "categorize_try ask (enumerate1 emails) (prompt_text (enumerate1 emails))")
  case (Inl e)
  then show ?thesis by (simp add: categorize_with_ai_def Let_def)
next
  case (Inr out)
  then obtain items where "rebuild (enumerate1 emails) items [] = Inr out"
    by (auto simp: categorize_try_def split: sum.splits)
  then have "\<forall>(c, rs)\<in>set out. set rs \<subseteq> set emails"
    by (rule rebuild_subset) (auto dest: ran_enumerate1)
  with Inr show ?thesis by (simp add: categorize_with_ai_def Let_def)
qed

text \<open>
  For the reply \<open>{"Action Required": ["2", 3, 0]}\<close> over a batch of two records, the one
  record of the result is the second record of the batch.
\<close>

theorem C7_no_fabricated_records_witness:
  "fst (categorize_with_ai
          (\<lambda>_. Inr (JObj [(''Action Required'', JArr [JStr ''2'', JInt 3, JInt 0])]))
          [\<lparr>id' = ''m1'', from' = ''Alice'', subject = ''Hi'', snippet = ''hello'',
            sender_count = Some 1\<rparr>,
           \<lparr>id' = ''m2'', from' = ''Bob'', subject = ''Yo'', snippet = ''bye'',
            sender_count = Some 1\<rparr>])
     = [(''Action Required'',
         [\<lparr>id' = ''m2'', from' = ''Bob'', subject = ''Yo'', snippet = ''bye'',
           sender_count = Some 1\<rparr>])]
   \<and> set (concat (map snd (fst (categorize_with_ai
          (\<lambda>_. Inr (JObj [(''Action Required'', JArr [JStr ''2'', JInt 3, JInt 0])]))
          [\<lparr>id' = ''m1'', from' = ''Alice'', subject = ''Hi'', snippet = ''hello'',
            sender_count = Some 1\<rparr>,
           \<lparr>id' = ''m2'', from' = ''Bob'', subject = ''Yo'', snippet = ''bye'',
            sender_count = Some 1\<rparr>]))))
     \<subseteq> set [\<lparr>id' = ''m1'', from' = ''Alice'', subject = ''Hi'', snippet = ''hello'',
            sender_count = Some 1\<rparr>,
           \<lparr>id' = ''m2'', from' = ''Bob'', subject = ''Yo'', snippet = ''bye'',
            sender_count = Some 1\<rparr>]"
proof
  show "fst (categorize_with_ai
          (\<lambda>_. Inr (JObj [(''Action Required'', JArr [JStr ''2'', JInt 3, JInt 0])]))
          [\<lparr>id' = ''m1'', from' = ''Alice'', subject = ''Hi'', snippet = ''hello'',
            sender_count = Some 1\<rparr>,
           \<lparr>id' = ''m2'', from' = ''Bob'', subject = ''Yo'', snippet = ''bye'',
            sender_count = Some 1\<rparr>])
     = [(''Action Required'',
         [\<lparr>id' = ''m2'', from' = ''Bob'', subject = ''Yo'', snippet = ''bye'',
           sender_count = Some 1\<rparr>])]"
    by (simp add: categorize_with_ai_def categorize_try_def Let_def enumerate1_def
          int_of_str_def int_isspace_def py_isdigit_def digit_value_def int_max_str_digits_def)
next
  show "set (concat (map snd (fst (categorize_with_ai
          (\<lambda>_. Inr (JObj [(''Action Required'', JArr [JStr ''2'', JInt 3, JInt 0])]))
          [\<lparr>id' = ''m1'', from' = ''Alice'', subject = ''Hi'', snippet = ''hello'',
            sender_count = Some 1\<rparr>,
           \<lparr>id' = ''m2'', from' = ''Bob'', subject = ''Yo'', snippet = ''bye'',
            sender_count = Some 1\<rparr>]))))
     \<subseteq> set [\<lparr>id' = ''m1'', from' = ''Alice'', subject = ''Hi'', snippet = ''hello'',
            sender_count = Some 1\<rparr>,
           \<lparr>id' = ''m2'', from' = ''Bob'', subject = ''Yo'', snippet = ''bye'',
            sender_count = Some 1\<rparr>]"
    using C7_no_fabricated_records[of
        "[\<lparr>id' = ''m1'', from' = ''Alice'', subject = ''Hi'', snippet = ''hello'',
            sender_count = Some 1\<rparr>,
          \<lparr>id' = ''m2'', from' = ''Bob'', subject = ''Yo'', snippet = ''bye'',
            sender_count = Some 1\<rparr>]"
        "\<lambda>_. Inr (JObj [(''Action Required'', JArr [JStr ''2'', JInt 3, JInt 0])])"]
    by fastforce
qed

section \<open>The fetch loop\<close>

lemma fetch_loop_append:
  "fetch_loop env (a @ b) st = fetch_loop env b (fetch_loop env a st)"
proof (induction a arbitrary: st)
  case Nil
  show ?case by simp
next
  case (Cons m a)
  obtain ex cnt where st: "st = (ex, cnt)" by (cases st)
  show ?case by (simp add: st Cons.IH split: sum.splits)
qed

lemma fetch_loop_skip:
  assumes "isl (fetch_one env m)"
  shows "fetch_loop env (pre @ m # post) st = fetch_loop env (pre @ post) st"
proof -
  obtain ex cnt where st: "fetch_loop env pre st = (ex, cnt)"
    by (cases "fetch_loop env pre st")
  from assms obtain e where "fetch_one env m = Inl e"
    by (cases "fetch_one env m") auto
  then show ?thesis by (simp add: fetch_loop_append st)
qed

lemma fetch_loop_extracted:
  "fst (fetch_loop env msgs (ex, cnt)) =
     ex @ map (\<lambda>m. projr (fetch_one env m)) (filter (\<lambda>m. \<not> isl (fetch_one env m)) msgs)"
  by (induction msgs arbitrary: ex cnt) (auto split: sum.splits)

lemma fetch_loop_counter:
  "\<forall>s. cnt s = int (length (filter (\<lambda>x. from' x = s) ex)) \<Longrightarrow>
   snd (fetch_loop env msgs (ex, cnt)) s =
     int (length (filter (\<lambda>x. from' x = s) (fst (fetch_loop env msgs (ex, cnt)))))"
proof (induction msgs arbitrary: ex cnt)
  case Nil
  then show ?case by simp
next
  case (Cons m msgs)
  show ?case
  proof (cases "fetch_one env m")
    case (Inl e)
    with Cons show ?thesis by simp
  next
    case (Inr em)
    have inv: "\<forall>s. (cnt(from' em := cnt (from' em) + 1)) s =
            int (length (filter (\<lambda>x. from' x = s) (ex @ [em])))"
      using Cons.prems by auto
    have "snd (fetch_loop env msgs (ex @ [em], cnt(from' em := cnt (from' em) + 1))) s =
            int (length (filter (\<lambda>x. from' x = s)
              (fst (fetch_loop env msgs (ex @ [em], cnt(from' em := cnt (from' em) + 1))))))"
      using inv by (rule Cons.IH)
    then show ?thesis by (simp only: fetch_loop.simps Inr sum.case)
  qed
qed

lemma attach_counts_filter:
  "length (filter (\<lambda>x. from' x = s) (attach_counts cnt ex)) =
     length (filter (\<lambda>x. from' x = s) ex)"
  by (induction ex) (simp_all add: attach_counts_def)

lemma fetch_and_count_extracted:
  "map (\<lambda>x. x\<lparr>sender_count := None\<rparr>) (fetch_and_count env msgs) =
     map (\<lambda>m. projr (fetch_one env m)\<lparr>sender_count := None\<rparr>)
       (filter (\<lambda>m. \<not> isl (fetch_one env m)) msgs)"
proof -
  obtain ex cnt where st: "fetch_loop env msgs ([], \<lambda>_. 0) = (ex, cnt)"
    by (cases "fetch_loop env msgs ([], \<lambda>_. 0)")
  have "ex = map (\<lambda>m. projr (fetch_one env m)) (filter (\<lambda>m. \<not> isl (fetch_one env m)) msgs)"
    using fetch_loop_extracted[of env msgs "[]" "\<lambda>_. 0"] by (simp add: st)
  then show ?thesis
    by (simp add: fetch_and_count_def st attach_counts_def o_def)
qed

lemma fetch_one_id: "fetch_one env m = Inr r \<Longrightarrow> entry_id m = Some (id' r)"
  by (auto simp: fetch_one_def Let_def split: option.splits sum.splits)

lemma fetch_one_read_fails:
  "entry_id m = Some mid \<Longrightarrow> isl (get_metadata env mid) \<or> isl (get_minimal env mid) \<Longrightarrow>
   isl (fetch_one env m)"
  by (auto simp: fetch_one_def isl_def split: sum.splits)

lemma fetch_and_count_ids:
  "map id' (fetch_and_count env msgs) =
     map (\<lambda>m. the (entry_id m)) (filter (\<lambda>m. \<not> isl (fetch_one env m)) msgs)"
proof -
  have "map id' (fetch_and_count env msgs) =
          map id' (map (\<lambda>x. x\<lparr>sender_count := None\<rparr>) (fetch_and_count env msgs))"
    by (simp add: o_def)
  also have "\<dots> = map (\<lambda>m. id' (projr (fetch_one env m)))
                    (filter (\<lambda>m. \<not> isl (fetch_one env m)) msgs)"
    by (simp add: fetch_and_count_extracted o_def)
  also have "\<dots> = map (\<lambda>m. the (entry_id m)) (filter (\<lambda>m. \<not> isl (fetch_one env m)) msgs)"
  proof (rule map_cong[OF refl])
    fix m assume "m \<in> set (filter (\<lambda>m. \<not> isl (fetch_one env m)) msgs)"
    then obtain r where "fetch_one env m = Inr r" by (cases "fetch_one env m") auto
    then show "id' (projr (fetch_one env m)) = the (entry_id m)"
      by (simp add: fetch_one_id)
  qed
  finally show ?thesis .
qed

lemma find_header_absent:
  "\<forall>h\<in>set hs. hname h \<noteq> None \<Longrightarrow> Some key \<notin> hname ` set hs \<Longrightarrow>
   find_header key d hs = Inr d"
  by (induction hs) (auto split: option.splits)

lemma find_header_wellformed:
  "\<forall>h\<in>set hs. hname h \<noteq> None \<and> hvalue h \<noteq> None \<Longrightarrow> \<exists>v. find_header key d hs = Inr v"
  by (induction hs) (auto split: option.splits)

section \<open>Claims about \<open>callback\<close> and \<open>get_result\<close>\<close>

text \<open>
  C4. After the fetch-and-count pass, the \<open>sender_count\<close> of every emitted record is the
  number of records of the same batch whose \<open>from\<close> field, the stripped sender, equals
  its own.
\<close>

theorem C4_sender_count:
  "\<forall>em\<in>set (fetch_and_count env messages).
     sender_count em =
       Some (int (length (filter (\<lambda>x. from' x = from' em) (fetch_and_count env messages))))"
proof
  fix em assume em: "em \<in> set (fetch_and_count env messages)"
  obtain ex cnt where st: "fetch_loop env messages ([], \<lambda>_. 0) = (ex, cnt)"
    by (cases "fetch_loop env messages ([], \<lambda>_. 0)")
  have out: "fetch_and_count env messages = attach_counts cnt ex"
    by (simp add: fetch_and_count_def st)
  have cnt: "cnt s = int (length (filter (\<lambda>x. from' x = s) ex))" for s
    using fetch_loop_counter[of "\<lambda>_. 0" "[]" env messages s] by (simp add: st)
  from em obtain x where x: "x \<in> set ex" "em = x\<lparr>sender_count := Some (cnt (from' x))\<rparr>"
    unfolding out attach_counts_def by auto
  then have "sender_count em = Some (cnt (from' em))" by simp
  then show "sender_count em =
      Some (int (length (filter (\<lambda>x. from' x = from' em) (fetch_and_count env messages))))"
    by (simp add: cnt out attach_counts_filter)
qed

text \<open>
  Two messages whose \<open>From\<close> header is \<open>Alice <a@x.com>\<close>: both records get the
  stripped sender \<open>Alice\<close> and \<open>sender_count\<close> 2.
\<close>

theorem C4_sender_count_witness:
  "map from' (fetch_and_count
      \<lparr>fetch_token = Inr ''token'', list_messages = Inr None,
        get_metadata = (\<lambda>_. Inr \<lparr>payload = Some \<lparr>headers = Some
          [\<lparr>hname = Some ''From'', hvalue = Some ''Alice <a@x.com>''\<rparr>]\<rparr>\<rparr>),
        get_minimal = (\<lambda>_. Inr \<lparr>msg_snippet = Some ''hello''\<rparr>),
        ask_model = (\<lambda>_. Inl APIError)\<rparr>
      [\<lparr>entry_id = Some ''m1''\<rparr>, \<lparr>entry_id = Some ''m2''\<rparr>]) = [''Alice'', ''Alice'']
   \<and> map sender_count (fetch_and_count
      \<lparr>fetch_token = Inr ''token'', list_messages = Inr None,
        get_metadata = (\<lambda>_. Inr \<lparr>payload = Some \<lparr>headers = Some
          [\<lparr>hname = Some ''From'', hvalue = Some ''Alice <a@x.com>''\<rparr>]\<rparr>\<rparr>),
        get_minimal = (\<lambda>_. Inr \<lparr>msg_snippet = Some ''hello''\<rparr>),
        ask_model = (\<lambda>_. Inl APIError)\<rparr>
      [\<lparr>entry_id = Some ''m1''\<rparr>, \<lparr>entry_id = Some ''m2''\<rparr>]) = [Some 2, Some 2]"
  using C4_sender_count[of
    "\<lparr>fetch_token = Inr ''token'', list_messages = Inr None,
      get_metadata = (\<lambda>_. Inr \<lparr>payload = Some \<lparr>headers = Some
        [\<lparr>hname = Some ''From'', hvalue = Some ''Alice <a@x.com>''\<rparr>]\<rparr>\<rparr>),
      get_minimal = (\<lambda>_. Inr \<lparr>msg_snippet = Some ''hello''\<rparr>),
      ask_model = (\<lambda>_. Inl APIError)\<rparr>"
    "[\<lparr>entry_id = Some ''m1''\<rparr>, \<lparr>entry_id = Some ''m2''\<rparr>]"]
  by (simp add: fetch_and_count_def fetch_one_def get_headers_def attach_counts_def
        remove_quotes_def strip_def split_lt_first_def py_isspace_def)

text \<open>
  C8. When one of the two reads of a message raises, the message is passed over: the
  batch gives the same records as the batch without that message, so the other messages
  are still fetched and the message contributes no record. If every other message is
  fetched, the output has exactly one record less than there are messages; and when the
  listed identifiers are pairwise different, the failing message's identifier is the
  \<open>id\<close> of no record.
\<close>

theorem C8_failed_fetch_skipped:
  assumes "entry_id m = Some mid"
    and "isl (get_metadata env mid) \<or> isl (get_minimal env mid)"
  shows "fetch_and_count env (pre @ m # post) = fetch_and_count env (pre @ post)
       \<and> ((\<forall>x\<in>set (pre @ post). \<not> isl (fetch_one env x)) \<longrightarrow>
            length (fetch_and_count env (pre @ m # post)) = length pre + length post)
       \<and> (distinct (map entry_id (pre @ m # post)) \<longrightarrow>
            mid \<notin> id' ` set (fetch_and_count env (pre @ m # post)))"
proof -
  have fail: "isl (fetch_one env m)"
    using assms by (rule fetch_one_read_fails)
  have skip: "fetch_and_count env (pre @ m # post) = fetch_and_count env (pre @ post)"
    by (simp add: fetch_and_count_def fetch_loop_skip[OF fail])
  have len: "length (fetch_and_count env msgs) =
      length (filter (\<lambda>x. \<not> isl (fetch_one env x)) msgs)" for msgs
    using arg_cong[OF fetch_and_count_ids[of env msgs], of length] by simp
  have count: "length (fetch_and_count env (pre @ m # post)) = length pre + length post"
    if "\<forall>x\<in>set (pre @ post). \<not> isl (fetch_one env x)"
  proof -
    from that have "filter (\<lambda>x. \<not> isl (fetch_one env x)) (pre @ post) = pre @ post"
      by (simp only: filter_id_conv)
    then show ?thesis by (simp only: skip len length_append)
  qed
  have absent: "mid \<notin> id' ` set (fetch_and_count env (pre @ m # post))"
    if d: "distinct (map entry_id (pre @ m # post))"
  proof
    assume "mid \<in> id' ` set (fetch_and_count env (pre @ m # post))"
    then have "mid \<in> set (map id' (fetch_and_count env (pre @ m # post)))" by simp
    then have "mid \<in> (\<lambda>x. the (entry_id x)) `
        set (filter (\<lambda>x. \<not> isl (fetch_one env x)) (pre @ m # post))"
      by (simp only: fetch_and_count_ids set_map)
    then obtain x where x: "x \<in> set (pre @ m # post)" "\<not> isl (fetch_one env x)"
      "mid = the (entry_id x)"
      by (auto simp only: set_filter)
    from x(2) obtain r where "fetch_one env x = Inr r" by (cases "fetch_one env x") auto
    then have "entry_id x = Some (id' r)" by (rule fetch_one_id)
    with x(3) assms(1) have "entry_id x = entry_id m" by simp
    moreover have "inj_on entry_id (set (pre @ m # post))"
      using d by (simp only: distinct_map)
    moreover have "m \<in> set (pre @ m # post)" by simp
    ultimately have "x = m" using x(1) by (auto dest: inj_onD)
    with x(2) fail show False by simp
  qed
  from skip count absent show ?thesis by blast
qed

text \<open>
  Five messages, the read of \<open>m3\<close> raises: four records are returned, and \<open>m3\<close> is
  the \<open>id\<close> of none of them.
\<close>

theorem C8_failed_fetch_skipped_witness:
  "length (fetch_and_count
      \<lparr>fetch_token = Inr ''token'', list_messages = Inr None,
        get_metadata = (\<lambda>i. if i = ''m3'' then Inl APIError else Inr \<lparr>payload = Some
          \<lparr>headers = Some [\<lparr>hname = Some ''From'', hvalue = Some ''Bob''\<rparr>]\<rparr>\<rparr>),
        get_minimal = (\<lambda>_. Inr \<lparr>msg_snippet = Some ''hello''\<rparr>),
        ask_model = (\<lambda>_. Inl APIError)\<rparr>
      [\<lparr>entry_id = Some ''m1''\<rparr>, \<lparr>entry_id = Some ''m2''\<rparr>, \<lparr>entry_id = Some ''m3''\<rparr>,
       \<lparr>entry_id = Some ''m4''\<rparr>, \<lparr>entry_id = Some ''m5''\<rparr>]) = 4
   \<and> ''m3'' \<notin> id' ` set (fetch_and_count
      \<lparr>fetch_token = Inr ''token'', list_messages = Inr None,
        get_metadata = (\<lambda>i. if i = ''m3'' then Inl APIError else Inr \<lparr>payload = Some
          \<lparr>headers = Some [\<lparr>hname = Some ''From'', hvalue = Some ''Bob''\<rparr>]\<rparr>\<rparr>),
        get_minimal = (\<lambda>_. Inr \<lparr>msg_snippet = Some ''hello''\<rparr>),
        ask_model = (\<lambda>_. Inl APIError)\<rparr>
      [\<lparr>entry_id = Some ''m1''\<rparr>, \<lparr>entry_id = Some ''m2''\<rparr>, \<lparr>entry_id = Some ''m3''\<rparr>,
       \<lparr>entry_id = Some ''m4''\<rparr>, \<lparr>entry_id = Some ''m5''\<rparr>])
   \<and> map id' (fetch_and_count
      \<lparr>fetch_token = Inr ''token'', list_messages = Inr None,
        get_metadata = (\<lambda>i. if i = ''m3'' then Inl APIError else Inr \<lparr>payload = Some
          \<lparr>headers = Some [\<lparr>hname = Some ''From'', hvalue = Some ''Bob''\<rparr>]\<rparr>\<rparr>),
        get_minimal = (\<lambda>_. Inr \<lparr>msg_snippet = Some ''hello''\<rparr>),
        ask_model = (\<lambda>_. Inl APIError)\<rparr>
      [\<lparr>entry_id = Some ''m1''\<rparr>, \<lparr>entry_id = Some ''m2''\<rparr>, \<lparr>entry_id = Some ''m3''\<rparr>,
       \<lparr>entry_id = Some ''m4''\<rparr>, \<lparr>entry_id = Some ''m5''\<rparr>]) = [''m1'', ''m2'', ''m4'', ''m5'']"
  using C8_failed_fetch_skipped[of "\<lparr>entry_id = Some ''m3''\<rparr>" "''m3''"
      "\<lparr>fetch_token = Inr ''token'', list_messages = Inr None,
        get_metadata = (\<lambda>i. if i = ''m3'' then Inl APIError else Inr \<lparr>payload = Some
          \<lparr>headers = Some [\<lparr>hname = Some ''From'', hvalue = Some ''Bob''\<rparr>]\<rparr>\<rparr>),
        get_minimal = (\<lambda>_. Inr \<lparr>msg_snippet = Some ''hello''\<rparr>),
        ask_model = (\<lambda>_. Inl APIError)\<rparr>"
      "[\<lparr>entry_id = Some ''m1''\<rparr>, \<lparr>entry_id = Some ''m2''\<rparr>]"
      "[\<lparr>entry_id = Some ''m4''\<rparr>, \<lparr>entry_id = Some ''m5''\<rparr>]"]
  by (simp add: fetch_and_count_def fetch_one_def get_headers_def attach_counts_def
        remove_quotes_def strip_def split_lt_first_def py_isspace_def)

text \<open>
  C9. \<open>get_result\<close> reports the status \<open>success\<close> in every state of the session. Before
  any run the categories are \<open>{}\<close>; after a run in which the categorization failed and
  after a run in which it gave the empty assignment, the response is that same value, so
  the caller cannot tell the three apart.
\<close>

theorem C9_result_always_success:
  "status (get_result s) = ''success''
   \<and> get_result USER_SESSION = \<lparr>status = ''success'', categories = []\<rparr>
   \<and> (fetch_token env = Inr creds \<and> list_messages env = Inr results
        \<and> (isl (categorize_try (ask_model env)
                  (enumerate1 (fetch_and_count env (case results of None \<Rightarrow> [] | Some ms \<Rightarrow> ms)))
                  (prompt_text (enumerate1
                     (fetch_and_count env (case results of None \<Rightarrow> [] | Some ms \<Rightarrow> ms)))))
           \<or> categorize_try (ask_model env)
                  (enumerate1 (fetch_and_count env (case results of None \<Rightarrow> [] | Some ms \<Rightarrow> ms)))
                  (prompt_text (enumerate1
                     (fetch_and_count env (case results of None \<Rightarrow> [] | Some ms \<Rightarrow> ms))))
               = Inr [])
      \<longrightarrow> get_result (snd (callback env s)) = \<lparr>status = ''success'', categories = []\<rparr>)"
  by (auto simp: get_result_def USER_SESSION_def callback_def categorize_with_ai_def Let_def
        isl_def)

text \<open>
  One message is listed and fetched; in the first run the request to the language model
  raises, in the second the reply is \<open>{}\<close>. The two responses of \<open>get_result\<close> are the
  same.
\<close>

theorem C9_result_always_success_witness:
  "get_result (snd (callback
      \<lparr>fetch_token = Inr ''token'',
        list_messages = Inr (Some [\<lparr>entry_id = Some ''m1''\<rparr>]),
        get_metadata = (\<lambda>_. Inr \<lparr>payload = Some \<lparr>headers = Some []\<rparr>\<rparr>),
        get_minimal = (\<lambda>_. Inr \<lparr>msg_snippet = Some ''hello''\<rparr>),
        ask_model = (\<lambda>_. Inl APIError)\<rparr>
      USER_SESSION)) = \<lparr>status = ''success'', categories = []\<rparr>
   \<and> get_result (snd (callback
      \<lparr>fetch_token = Inr ''token'',
        list_messages = Inr (Some [\<lparr>entry_id = Some ''m1''\<rparr>]),
        get_metadata = (\<lambda>_. Inr \<lparr>payload = Some \<lparr>headers = Some []\<rparr>\<rparr>),
        get_minimal = (\<lambda>_. Inr \<lparr>msg_snippet = Some ''hello''\<rparr>),
        ask_model = (\<lambda>_. Inr (JObj []))\<rparr>
      USER_SESSION)) = \<lparr>status = ''success'', categories = []\<rparr>"
  using
    C9_result_always_success[of USER_SESSION
      "\<lparr>fetch_token = Inr ''token'',
        list_messages = Inr (Some [\<lparr>entry_id = Some ''m1''\<rparr>]),
        get_metadata = (\<lambda>_. Inr \<lparr>payload = Some \<lparr>headers = Some []\<rparr>\<rparr>),
        get_minimal = (\<lambda>_. Inr \<lparr>msg_snippet = Some ''hello''\<rparr>),
        ask_model = (\<lambda>_. Inl APIError)\<rparr>"
      "''token''" "Some [\<lparr>entry_id = Some ''m1''\<rparr>]"]
    C9_result_always_success[of USER_SESSION
      "\<lparr>fetch_token = Inr ''token'',
        list_messages = Inr (Some [\<lparr>entry_id = Some ''m1''\<rparr>]),
        get_metadata = (\<lambda>_. Inr \<lparr>payload = Some \<lparr>headers = Some []\<rparr>\<rparr>),
        get_minimal = (\<lambda>_. Inr \<lparr>msg_snippet = Some ''hello''\<rparr>),
        ask_model = (\<lambda>_. Inr (JObj []))\<rparr>"
      "''token''" "Some [\<lparr>entry_id = Some ''m1''\<rparr>]"]
  by (simp add: categorize_try_def)

lemma fetch_and_count_emits:
  assumes "m \<in> set msgs" and "fetch_one env m = Inr r"
  shows "\<exists>em\<in>set (fetch_and_count env msgs).
           id' em = id' r \<and> from' em = from' r \<and> subject em = subject r"
proof -
  let ?strip = "\<lambda>x::email. x\<lparr>sender_count := None\<rparr>"
  have "?strip r \<in> set (map (\<lambda>m. ?strip (projr (fetch_one env m)))
                       (filter (\<lambda>m. \<not> isl (fetch_one env m)) msgs))"
    using assms by force
  then have "?strip r \<in> set (map ?strip (fetch_and_count env msgs))"
    by (simp only: fetch_and_count_extracted)
  then obtain em where em: "em \<in> set (fetch_and_count env msgs)" "?strip em = ?strip r"
    by auto
  from em(2) have "id' em = id' r \<and> from' em = from' r \<and> subject em = subject r"
    by (cases em, cases r) simp
  with em(1) show ?thesis by blast
qed

text \<open>
  C10. A message both of whose reads succeed and whose headers each carry a name and a
  value is emitted as a record. If none of its headers is named \<open>From\<close>, the record's
  sender is \<open>Unknown\<close>; if none is named \<open>Subject\<close>, its subject is \<open>(No Subject)\<close>;
  in either case the record is in the output of the batch.
\<close>

theorem C10_missing_header_defaults:
  assumes "entry_id msg = Some mid"
    and "get_metadata env mid = Inr data"
    and "get_minimal env mid = Inr snippet_res"
    and "\<forall>h\<in>set (get_headers data). hname h \<noteq> None \<and> hvalue h \<noteq> None"
  shows "\<not> isl (fetch_one env msg)
       \<and> (Some ''From'' \<notin> hname ` set (get_headers data) \<longrightarrow>
            from' (projr (fetch_one env msg)) = ''Unknown''
            \<and> (\<exists>em\<in>set (fetch_and_count env (pre @ msg # post)).
                  id' em = mid \<and> from' em = ''Unknown''))
       \<and> (Some ''Subject'' \<notin> hname ` set (get_headers data) \<longrightarrow>
            subject (projr (fetch_one env msg)) = ''(No Subject)''
            \<and> (\<exists>em\<in>set (fetch_and_count env (pre @ msg # post)).
                  id' em = mid \<and> subject em = ''(No Subject)''))"
proof -
  from assms(4) obtain sv where sv:
    "find_header ''Subject'' ''(No Subject)'' (get_headers data) = Inr sv"
    using find_header_wellformed by blast
  from assms(4) obtain fv where fv:
    "find_header ''From'' ''Unknown'' (get_headers data) = Inr fv"
    using find_header_wellformed by blast
  define r where "r = \<lparr>id' = mid, from' = remove_quotes (strip (split_lt_first fv)),
    subject = sv, snippet = (case msg_snippet snippet_res of None \<Rightarrow> [] | Some s \<Rightarrow> s),
    sender_count = None\<rparr>"
  have one: "fetch_one env msg = Inr r"
    by (simp add: fetch_one_def assms(1,2,3) sv fv r_def)
  have names: "\<forall>h\<in>set (get_headers data). hname h \<noteq> None"
    using assms(4) by blast
  have unknown: "remove_quotes (strip (split_lt_first ''Unknown'')) = ''Unknown''"
    by (simp add: remove_quotes_def strip_def split_lt_first_def py_isspace_def)
  obtain em where em: "em \<in> set (fetch_and_count env (pre @ msg # post))"
    "id' em = id' r" "from' em = from' r" "subject em = subject r"
    using fetch_and_count_emits[of msg "pre @ msg # post" env r] one by auto
  have f: "from' r = ''Unknown''" if "Some ''From'' \<notin> hname ` set (get_headers data)"
    using find_header_absent[OF names that, of "''Unknown''"] fv unknown by (simp add: r_def)
  have s: "subject r = ''(No Subject)''" if "Some ''Subject'' \<notin> hname ` set (get_headers data)"
    using find_header_absent[OF names that, of "''(No Subject)''"] sv by (simp add: r_def)
  have i: "id' r = mid" by (simp add: r_def)
  show ?thesis
    using em f s i by (auto simp: one)
qed

text \<open>
  A message whose metadata has no headers at all: the one record of the batch has the
  two defaults.
\<close>

theorem C10_missing_header_defaults_witness:
  "fetch_and_count
      \<lparr>fetch_token = Inr ''token'', list_messages = Inr None,
        get_metadata = (\<lambda>_. Inr \<lparr>payload = Some \<lparr>headers = Some []\<rparr>\<rparr>),
        get_minimal = (\<lambda>_. Inr \<lparr>msg_snippet = Some ''hello''\<rparr>),
        ask_model = (\<lambda>_. Inl APIError)\<rparr>
      [\<lparr>entry_id = Some ''m1''\<rparr>]
    = [\<lparr>id' = ''m1'', from' = ''Unknown'', subject = ''(No Subject)'', snippet = ''hello'',
        sender_count = Some 1\<rparr>]
   \<and> \<not> isl (fetch_one
      \<lparr>fetch_token = Inr ''token'', list_messages = Inr None,
        get_metadata = (\<lambda>_. Inr \<lparr>payload = Some \<lparr>headers = Some []\<rparr>\<rparr>),
        get_minimal = (\<lambda>_. Inr \<lparr>msg_snippet = Some ''hello''\<rparr>),
        ask_model = (\<lambda>_. Inl APIError)\<rparr>
      \<lparr>entry_id = Some ''m1''\<rparr>)"
  using C10_missing_header_defaults[of "\<lparr>entry_id = Some ''m1''\<rparr>" "''m1''"
      "\<lparr>fetch_token = Inr ''token'', list_messages = Inr None,
        get_metadata = (\<lambda>_. Inr \<lparr>payload = Some \<lparr>headers = Some []\<rparr>\<rparr>),
        get_minimal = (\<lambda>_. Inr \<lparr>msg_snippet = Some ''hello''\<rparr>),
        ask_model = (\<lambda>_. Inl APIError)\<rparr>"
      "\<lparr>payload = Some \<lparr>headers = Some []\<rparr>\<rparr>" "\<lparr>msg_snippet = Some ''hello''\<rparr>" "[]" "[]"]
  by (simp add: fetch_and_count_def fetch_one_def get_headers_def attach_counts_def
        remove_quotes_def strip_def split_lt_first_def py_isspace_def)

end
